theory Spec2Isabelle
  imports Complex_Main
begin

section \<open>Data model\<close>

text \<open>
  The types of \<^verbatim>\<open>src/App/src/useTriviaData.tsx\<close>, lines 3-38. A \<^verbatim>\<open>Question\<close> is an
  \<^verbatim>\<open>ApiResult\<close> (line 28); \<^verbatim>\<open>ApiResponse\<close> is the body of one response of the
  question source.
\<close>

datatype QuestionDifficulty = easy | medium | hard

record Question =
  category :: string
  type :: string
  difficulty :: QuestionDifficulty
  question :: string
  correct_answer :: string
  incorrect_answers :: "string list"

record ApiResponse =
  response_code :: int
  results :: "Question list"

text \<open>
  A thrown JavaScript value, as the \<^verbatim>\<open>catch\<close> clause of \<^verbatim>\<open>fetchData\<close> looks at it:
  \<^verbatim>\<open>e instanceof Error\<close>, and then \<^verbatim>\<open>e.name\<close> and \<^verbatim>\<open>e.message\<close>. A
  \<^verbatim>\<open>DOMException\<close> is an instance of \<^verbatim>\<open>Error\<close>.
\<close>

datatype thrown = Error (name: string) (message: string) | NonError

definition new_Error :: "string \<Rightarrow> thrown" where
  \<comment> \<open>\<^verbatim>\<open>new Error(msg)\<close>: the name of a plain Error is "Error"\<close>
  "new_Error msg = Error ''Error'' msg"

definition AbortError :: thrown where
  \<comment> \<open>the DOMException with which \<^verbatim>\<open>fetch\<close> rejects when its signal is aborted; the
      code never reads its message\<close>
  "AbortError = Error ''AbortError'' ''The operation was aborted.''"

section \<open>Numbers in template literals\<close>

text \<open>
  \<^verbatim>\<open>`${n}`\<close> for an integer \<open>n\<close>: its decimal digits. \<^verbatim>\<open>totalAmount\<close> is a positive
  integer (spec, 4.3), far below \<open>2^53\<close>, so the JavaScript numbers of the loop are exact
  and are modelled as \<open>nat\<close>.
\<close>

fun show_nat :: "nat \<Rightarrow> string" where
  "show_nat n =
     (if n < 10 then [''0123456789'' ! n]
      else show_nat (n div 10) @ [''0123456789'' ! (n mod 10)])"

declare show_nat.simps [simp del]

definition show_int :: "int \<Rightarrow> string" where
  "show_int k = (if k < 0 then ''-'' @ show_nat (nat (- k)) else show_nat (nat k))"

section \<open>decodeHtml (lines 44-52)\<close>

text \<open>
  \<^verbatim>\<open>new DOMParser().parseFromString(html, "text/html").documentElement.textContent\<close> is
  code of the browser, not of this repository: it is a parameter of the model, a function
  that either throws or returns the text content of the parsed document.
\<close>

type_synonym dom_parser = "string \<Rightarrow> thrown + string"

definition decodeHtml :: "dom_parser \<Rightarrow> string \<Rightarrow> string" where
  "decodeHtml textContent html =
     (case textContent html of
        Inl e \<Rightarrow> html
      | Inr t \<Rightarrow> (if t = [] then html else t))"

text \<open>The function mapped over \<^verbatim>\<open>data.results\<close> (lines 121-127).\<close>

definition decodeQuestion :: "dom_parser \<Rightarrow> Question \<Rightarrow> Question" where
  "decodeQuestion textContent q =
     q\<lparr>category := decodeHtml textContent (category q),
       question := decodeHtml textContent (question q),
       correct_answer := decodeHtml textContent (correct_answer q),
       incorrect_answers := map (decodeHtml textContent) (incorrect_answers q)\<rparr>"

section \<open>The world of one run\<close>

text \<open>
  \<^verbatim>\<open>sessionStorage\<close> holds strings. \<^verbatim>\<open>fetchData\<close> looks at a stored string in two
  ways only: its truthiness (line 76; the empty string is falsy) and
  \<^verbatim>\<open>JSON.parse\<close> (line 78). A stored string is therefore represented by what these
  two see: the empty string, a non-empty string that \<^verbatim>\<open>JSON.parse\<close> rejects, or the
  text of a JSON value. Of a parsed value the code reads \<^verbatim>\<open>.length\<close> (line 79):
  \<open>Json_other\<close> stands for the values whose \<^verbatim>\<open>.length > 0\<close> is false without being
  an array (numbers, booleans, objects, the empty string). Line 78 casts the parsed value
  to \<^verbatim>\<open>Question[]\<close> without a check. A parsed value with a positive length that is
  not a list of questions (a non-empty JSON string, an array of numbers) has no
  representation here: the code would publish it as the questions. Nothing below speaks
  of such an entry; the entries spoken of are missing, empty, rejected by
  \<^verbatim>\<open>JSON.parse\<close>, \<^verbatim>\<open>null\<close>, or lists of questions.
\<close>

datatype json_value = Json_null | Json_questions "Question list" | Json_other

datatype stored_text = Empty_string | Unparseable | Serialized json_value

definition truthy :: "stored_text \<Rightarrow> bool" where
  "truthy t = (t \<noteq> Empty_string)"

fun JSON_parse :: "stored_text \<Rightarrow> thrown + json_value" where
  "JSON_parse Empty_string = Inl (Error ''SyntaxError'' ''Unexpected end of JSON input'')"
| "JSON_parse Unparseable = Inl (Error ''SyntaxError'' ''Unexpected token'')"
| "JSON_parse (Serialized v) = Inr v"

definition JSON_stringify :: "Question list \<Rightarrow> stored_text" where
  "JSON_stringify qs = Serialized (Json_questions qs)"

text \<open>
  The state a run reads and writes: the three React state variables of the hook
  (lines 64-66), the session storage, \<^verbatim>\<open>signal.aborted\<close> of the run's
  \<^verbatim>\<open>AbortController\<close>, and two observations of the run: the \<^verbatim>\<open>amount\<close> of every
  network request issued, in order, and the milliseconds spent in \<^verbatim>\<open>wait\<close>.
\<close>

record world =
  questions :: "Question list"
  loading :: bool
  error :: "string option"
  sessionStorage :: "string \<rightharpoonup> stored_text"
  aborted :: bool
  requests :: "nat list"
  waited :: nat

text \<open>
  What the surroundings do during iteration \<open>i\<close> of the loop. \<open>outcome\<close>: the request is
  aborted while it is in flight (\<^verbatim>\<open>controller.abort()\<close> runs while \<^verbatim>\<open>fetch\<close> or
  \<^verbatim>\<open>response.json()\<close> is pending, which rejects with the AbortError DOMException), or
  \<^verbatim>\<open>fetch\<close> rejects for another reason, or it resolves with a response.
  \<open>abort_after_body\<close>: \<^verbatim>\<open>controller.abort()\<close> ran after the whole body had been
  read, too late to reject \<^verbatim>\<open>response.json()\<close>, and before control returned to
  \<^verbatim>\<open>fetchData\<close>; this is what the check of line 133 looks for.
  \<open>abort_in_delay = Some t\<close>: \<^verbatim>\<open>controller.abort()\<close> runs \<open>t\<close> ms into the delay that
  follows the batch.
\<close>

record response =
  ok :: bool
  status :: nat
  json :: "thrown + ApiResponse"

datatype request_outcome = Aborted_in_flight | Rejected thrown | Responded response

record batch_env =
  outcome :: request_outcome
  abort_after_body :: bool
  abort_in_delay :: "nat option"

record env =
  batch :: "nat \<Rightarrow> batch_env"
  setItem_throws :: "thrown option"

section \<open>The operations of the browser\<close>

definition wait :: "nat \<Rightarrow> nat option \<Rightarrow> world \<Rightarrow> world" where
  \<comment> \<open>line 57: a promise that \<^verbatim>\<open>setTimeout\<close> resolves after \<open>ms\<close>; it takes no signal\<close>
  "wait ms abort_at s =
     s\<lparr>waited := waited s + ms,
       aborted := aborted s \<or> (case abort_at of None \<Rightarrow> False | Some t \<Rightarrow> t < ms)\<rparr>"

definition fetch :: "nat \<Rightarrow> batch_env \<Rightarrow> world \<Rightarrow> (thrown + response) \<times> world" where
  \<comment> \<open>\<^verbatim>\<open>await fetch(url, { signal })\<close>: with an aborted signal it rejects at once and
      sends nothing\<close>
  "fetch amount e s =
     (if aborted s then (Inl AbortError, s)
      else
        let s1 = s\<lparr>requests := requests s @ [amount]\<rparr> in
        case outcome e of
          Aborted_in_flight \<Rightarrow> (Inl AbortError, s1\<lparr>aborted := True\<rparr>)
        | Rejected x \<Rightarrow> (Inl x, s1)
        | Responded r \<Rightarrow> (Inr r, s1))"

definition setItem :: "string \<Rightarrow> stored_text \<Rightarrow> thrown option \<Rightarrow> world \<Rightarrow> thrown option \<times> world" where
  \<comment> \<open>\<^verbatim>\<open>sessionStorage.setItem\<close>, which may throw (a full quota) and then stores nothing\<close>
  "setItem key v failure s =
     (case failure of
        Some x \<Rightarrow> (Some x, s)
      | None \<Rightarrow> (None, s\<lparr>sessionStorage := (sessionStorage s)(key \<mapsto> v)\<rparr>))"

definition removeItem :: "string \<Rightarrow> world \<Rightarrow> world" where
  "removeItem key s = s\<lparr>sessionStorage := (sessionStorage s)(key := None)\<rparr>"

section \<open>useTriviaData.fetchData (lines 68-166)\<close>

definition CACHE_KEY :: "nat \<Rightarrow> string" where
  "CACHE_KEY totalAmount = ''triviaDataCache_'' @ show_nat totalAmount"

definition numRequests :: "nat \<Rightarrow> nat" where
  \<comment> \<open>line 96: \<^verbatim>\<open>Math.ceil(totalAmount / 50)\<close>\<close>
  "numRequests totalAmount = nat \<lceil>real totalAmount / 50\<rceil>"

definition amountInThisRequest :: "nat \<Rightarrow> nat \<Rightarrow> nat" where
  \<comment> \<open>lines 102-104; \<^verbatim>\<open>i === numRequests - 1\<close> is written \<open>i + 1 = numRequests\<close>, which is the
      same on the numbers of JavaScript and does not truncate at \<open>0\<close>\<close>
  "amountInThisRequest totalAmount i =
     (if i + 1 = numRequests totalAmount \<and> totalAmount mod 50 \<noteq> 0
      then totalAmount mod 50 else 50)"

text \<open>
  One iteration of the loop (lines 100-135): it throws (\<open>Inl\<close>) or hands the grown
  accumulator to the next iteration.
\<close>

definition batch_step ::
  "dom_parser \<Rightarrow> nat \<Rightarrow> batch_env \<Rightarrow> nat \<Rightarrow> Question list \<Rightarrow> world
     \<Rightarrow> (thrown + Question list) \<times> world" where
  "batch_step textContent totalAmount e i allFetchedQuestions s =
     (case fetch (amountInThisRequest totalAmount i) e s of
        (Inl x, s1) \<Rightarrow> (Inl x, s1)
      | (Inr response, s1) \<Rightarrow>
          if \<not> ok response
          then (Inl (new_Error (''HTTP error! status: '' @ show_nat (status response))), s1)
          else
            (let s2 = s1\<lparr>aborted := aborted s1 \<or> abort_after_body e\<rparr> in
             case json response of
               Inl x \<Rightarrow> (Inl x, s2)
             | Inr data \<Rightarrow>
                 if response_code data \<noteq> 0
                 then (Inl (new_Error (''Trivia API Error Code: '' @ show_int (response_code data))), s2)
                 else
                   let decodedQuestions = map (decodeQuestion textContent) (results data);
                       acc = allFetchedQuestions @ decodedQuestions
                   in
                     if i + 1 < numRequests totalAmount
                     then
                       if aborted s2 then (Inl (new_Error ''AbortError''), s2)
                       else (Inr acc, wait 5000 (abort_in_delay e) s2)
                     else (Inr acc, s2)))"

function fetchLoop ::
  "dom_parser \<Rightarrow> nat \<Rightarrow> (nat \<Rightarrow> batch_env) \<Rightarrow> nat \<Rightarrow> Question list \<Rightarrow> world
     \<Rightarrow> (thrown + Question list) \<times> world" where
  "fetchLoop textContent totalAmount b i allFetchedQuestions s =
     (if i < numRequests totalAmount
      then
        (case batch_step textContent totalAmount (b i) i allFetchedQuestions s of
           (Inl x, s1) \<Rightarrow> (Inl x, s1)
         | (Inr acc, s1) \<Rightarrow> fetchLoop textContent totalAmount b (i + 1) acc s1)
      else (Inr allFetchedQuestions, s))"
  by pat_completeness auto
termination
  by (relation "measure (\<lambda>(textContent, totalAmount, b, i, acc, s). numRequests totalAmount - i)") auto

declare fetchLoop.simps [simp del]

text \<open>The body of the \<^verbatim>\<open>try\<close> (lines 98-141): the exception that leaves it, if any.\<close>

definition tryBlock :: "dom_parser \<Rightarrow> nat \<Rightarrow> env \<Rightarrow> world \<Rightarrow> thrown option \<times> world" where
  "tryBlock textContent totalAmount v s =
     (case fetchLoop textContent totalAmount (batch v) 0 [] s of
        (Inl x, s1) \<Rightarrow> (Some x, s1)
      | (Inr allFetchedQuestions, s1) \<Rightarrow>
          (case setItem (CACHE_KEY totalAmount) (JSON_stringify allFetchedQuestions)
                  (setItem_throws v) s1 of
             (Some x, s2) \<Rightarrow> (Some x, s2)
           | (None, s2) \<Rightarrow> (None, s2\<lparr>questions := allFetchedQuestions\<rparr>)))"

definition catchBlock :: "thrown \<Rightarrow> world \<Rightarrow> world" where
  \<comment> \<open>lines 142-152\<close>
  "catchBlock e s =
     (case e of
        Error n m \<Rightarrow> (if n = ''AbortError'' then s else s\<lparr>error := Some m\<rparr>)
      | NonError \<Rightarrow> s\<lparr>error := Some ''An unknown error occurred.''\<rparr>)"

definition finallyBlock :: "world \<Rightarrow> world" where
  \<comment> \<open>lines 153-157\<close>
  "finallyBlock s = (if \<not> aborted s then s\<lparr>loading := False\<rparr> else s)"

text \<open>
  The cache check (lines 75-88) either returns from \<^verbatim>\<open>fetchData\<close> (\<open>Hit\<close>) or falls
  through to the fetch (\<open>Miss\<close>). \<^verbatim>\<open>null.length\<close> throws a TypeError inside the
  \<^verbatim>\<open>try\<close>, which the \<^verbatim>\<open>catch\<close> of line 84 handles like a parse error.
\<close>

datatype cache_check = Hit world | Miss world

definition cacheCheck :: "nat \<Rightarrow> world \<Rightarrow> cache_check" where
  "cacheCheck totalAmount s =
     (case sessionStorage s (CACHE_KEY totalAmount) of
        None \<Rightarrow> Miss s
      | Some cachedData \<Rightarrow>
          if truthy cachedData
          then
            (case JSON_parse cachedData of
               Inl e \<Rightarrow> Miss (removeItem (CACHE_KEY totalAmount) s)
             | Inr Json_null \<Rightarrow> Miss (removeItem (CACHE_KEY totalAmount) s)
             | Inr (Json_questions parsedData) \<Rightarrow>
                 if length parsedData > 0
                 then Hit (s\<lparr>questions := parsedData, loading := False\<rparr>)
                 else Miss s
             | Inr Json_other \<Rightarrow> Miss s)
          else Miss s)"

definition networkRun :: "dom_parser \<Rightarrow> nat \<Rightarrow> env \<Rightarrow> world \<Rightarrow> world" where
  \<comment> \<open>lines 90-157\<close>
  "networkRun textContent totalAmount v s =
     (case tryBlock textContent totalAmount v (s\<lparr>loading := True, error := None\<rparr>) of
        (None, s1) \<Rightarrow> finallyBlock s1
      | (Some e, s1) \<Rightarrow> finallyBlock (catchBlock e s1))"

definition fetchData :: "dom_parser \<Rightarrow> nat \<Rightarrow> env \<Rightarrow> world \<Rightarrow> world" where
  "fetchData textContent totalAmount v s =
     (case cacheCheck totalAmount s of
        Hit s' \<Rightarrow> s'
      | Miss s' \<Rightarrow> networkRun textContent totalAmount v s')"

text \<open>The state of the hook when the component mounts (lines 64-66).\<close>

definition initial_world :: "(string \<rightharpoonup> stored_text) \<Rightarrow> world" where
  "initial_world store =
     \<lparr>questions = [], loading = True, error = None, sessionStorage = store,
      aborted = False, requests = [], waited = 0\<rparr>"

section \<open>The batch plan\<close>

definition plan :: "nat \<Rightarrow> nat list" where
  \<comment> \<open>the amounts the loop asks for, over its indices\<close>
  "plan totalAmount = map (amountInThisRequest totalAmount) [0..<numRequests totalAmount]"

definition delivered :: "batch_env \<Rightarrow> Question list" where
  \<comment> \<open>\<^verbatim>\<open>data.results\<close> of the response of a batch, when there is one\<close>
  "delivered e =
     (case outcome e of
        Responded r \<Rightarrow> (case json r of Inr d \<Rightarrow> results d | Inl x \<Rightarrow> [])
      | _ \<Rightarrow> [])"

section \<open>The text content of a parsed document\<close>

text \<open>
  What the browser answers to
  \<^verbatim>\<open>new DOMParser().parseFromString(html, "text/html").documentElement.textContent\<close>
  is described here for a fragment of the inputs only, and \<open>None\<close> stands for an input
  outside the fragment, of which nothing is said. The fragment: printable ASCII
  characters (codes 32 to 126) without \<^verbatim>\<open><\<close>, where every \<^verbatim>\<open>&\<close> starts one of the five
  references \<^verbatim>\<open>&amp;\<close>, \<^verbatim>\<open>&quot;\<close>, \<^verbatim>\<open>&#039;\<close>, \<^verbatim>\<open>&lt;\<close>, \<^verbatim>\<open>&gt;\<close>. On such an
  input the parser of a document builds an empty head and a body that holds one text:
  the spaces before the first other character are dropped (they come before the body is
  opened), each reference is replaced by its character, every other character is kept.
\<close>

definition plain_char :: "char \<Rightarrow> bool" where
  "plain_char c =
     (32 \<le> (of_char c :: nat) \<and> (of_char c :: nat) \<le> 126 \<and> c \<noteq> CHR ''<'' \<and> c \<noteq> CHR ''&'')"

fun decode_text :: "string \<Rightarrow> string option" where
  "decode_text [] = Some []"
| "decode_text (c # cs) =
     (if c = CHR ''&'' then
        (if take 4 cs = ''amp;'' then map_option ((#) (CHR ''&'')) (decode_text (drop 4 cs))
         else if take 5 cs = ''quot;'' then map_option ((#) (CHR 0x22)) (decode_text (drop 5 cs))
         else if take 5 cs = ''#039;'' then map_option ((#) (CHR 0x27)) (decode_text (drop 5 cs))
         else if take 3 cs = ''lt;'' then map_option ((#) (CHR ''<'')) (decode_text (drop 3 cs))
         else if take 3 cs = ''gt;'' then map_option ((#) (CHR ''>'')) (decode_text (drop 3 cs))
         else None)
      else if plain_char c then map_option ((#) c) (decode_text cs)
      else None)"

definition known_textContent :: "string \<Rightarrow> string option" where
  "known_textContent html = decode_text (dropWhile (\<lambda>c. c = CHR '' '') html)"

section \<open>Example surroundings\<close>

text \<open>
  A parser to run the model with: it answers as the browser does on the fragment
  described above and throws on every other input, so that nothing is computed from an
  input outside the fragment but the fallback of \<^verbatim>\<open>decodeHtml\<close>.
\<close>

definition example_textContent :: dom_parser where
  "example_textContent html =
     (case known_textContent html of
        Some t \<Rightarrow> Inr t
      | None \<Rightarrow> Inl (Error ''NotModelled'' ''input outside the described fragment''))"

definition raw_question :: Question where
  "raw_question =
     \<lparr>category = ''Science &amp; Nature'', type = ''multiple'', difficulty = easy,
      question = ''Salt &amp; pepper?'', correct_answer = ''A &amp; B'',
      incorrect_answers = [''C &amp; D'', ''E'']\<rparr>"

definition ok_response :: "Question list \<Rightarrow> batch_env" where
  "ok_response qs =
     \<lparr>outcome = Responded \<lparr>ok = True, status = 200, json = Inr \<lparr>response_code = 0, results = qs\<rparr>\<rparr>,
      abort_after_body = False, abort_in_delay = None\<rparr>"

definition honest_env :: "nat \<Rightarrow> env" where
  "honest_env totalAmount =
     \<lparr>batch = (\<lambda>i. ok_response (replicate (amountInThisRequest totalAmount i) raw_question)),
      setItem_throws = None\<rparr>"

section \<open>The catch clause and the effect\<close>

text \<open>
  What the \<^verbatim>\<open>catch\<close> clause takes for a cancellation (lines 143-145): an
  \<^verbatim>\<open>Error\<close> whose name is "AbortError".
\<close>

definition cancellation :: "thrown \<Rightarrow> bool" where
  "cancellation e = (case e of Error n m \<Rightarrow> n = ''AbortError'' | NonError \<Rightarrow> False)"

text \<open>
  The effect (lines 68-71 and 160), for a run that starts once the run before it has
  settled: every run creates an \<^verbatim>\<open>AbortController\<close> of its own, whose signal is not
  aborted, and calls \<^verbatim>\<open>fetchData\<close>; the React state and the session storage are those
  the previous run left. Runs that overlap are not described by this composition: when
  the requested total changes while a run is in flight, the continuation of the aborted
  run still writes to the React state after the new run has started. It is used below
  only to compose runs that have settled.
\<close>

definition useEffect :: "dom_parser \<Rightarrow> nat \<Rightarrow> env \<Rightarrow> world \<Rightarrow> world" where
  "useEffect textContent totalAmount v s = fetchData textContent totalAmount v (s\<lparr>aborted := False\<rparr>)"

section \<open>Example runs\<close>

text \<open>
  Surroundings for a requested total of 80: the signal is aborted after the body of the
  first batch was read; 100 ms into the delay; while the second request is in flight.
  Then a source that answers with a response code other than 0, and a storage whose
  quota is full.
\<close>

definition cancelled_after_body :: env where
  "cancelled_after_body =
     \<lparr>batch = (\<lambda>i. (ok_response (replicate 50 raw_question))\<lparr>abort_after_body := (i = 0)\<rparr>),
      setItem_throws = None\<rparr>"

definition cancelled_in_delay :: env where
  "cancelled_in_delay =
     \<lparr>batch = (\<lambda>i. (ok_response (replicate 50 raw_question))
                       \<lparr>abort_in_delay := (if i = 0 then Some 100 else None)\<rparr>),
      setItem_throws = None\<rparr>"

definition cancelled_in_flight :: env where
  "cancelled_in_flight =
     \<lparr>batch = (\<lambda>i. if i = 0 then ok_response (replicate 50 raw_question)
                     else \<lparr>outcome = Aborted_in_flight, abort_after_body = False, abort_in_delay = None\<rparr>),
      setItem_throws = None\<rparr>"

definition api_rejects :: "int \<Rightarrow> env" where
  "api_rejects code =
     \<lparr>batch = (\<lambda>i. \<lparr>outcome = Responded \<lparr>ok = True, status = 200,
                                           json = Inr \<lparr>response_code = code, results = []\<rparr>\<rparr>,
                      abort_after_body = False, abort_in_delay = None\<rparr>),
      setItem_throws = None\<rparr>"

definition quota_exceeded :: "nat \<Rightarrow> env" where
  "quota_exceeded totalAmount =
     (honest_env totalAmount)
       \<lparr>setItem_throws := Some (Error ''QuotaExceededError'' ''The quota has been exceeded.'')\<rparr>"


definition reference_in_type :: Question where
  "reference_in_type = raw_question\<lparr>type := ''true &amp; false''\<rparr>"

definition source_delivers :: "Question list \<Rightarrow> env" where
  "source_delivers qs = \<lparr>batch = (\<lambda>i. ok_response qs), setItem_throws = None\<rparr>"

section \<open>Printable characters by their bits\<close>

lemma plain_char_bits [code]:
  "plain_char (Char b0 b1 b2 b3 b4 b5 b6 b7) =
     (\<not> b7 \<and> (b5 \<or> b6) \<and> \<not> (b0 \<and> b1 \<and> b2 \<and> b3 \<and> b4 \<and> b5 \<and> b6)
      \<and> Char b0 b1 b2 b3 b4 b5 b6 b7 \<noteq> CHR ''<'' \<and> Char b0 b1 b2 b3 b4 b5 b6 b7 \<noteq> CHR ''&'')"
  by (cases b0; cases b1; cases b2; cases b3; cases b4; cases b5; cases b6; cases b7)
     (simp_all add: plain_char_def)

section \<open>The number of requests\<close>

lemma ceiling_div_50: "\<lceil>real n / 50\<rceil> = int ((n + 49) div 50)"
proof (rule ceiling_unique)
  define q where "q = n div 50"
  define r where "r = n mod 50"
  have nq: "n = 50 * q + r" and r: "r < 50"
    by (simp_all add: q_def r_def)
  have d: "(n + 49) div 50 = (if r = 0 then q else q + 1)"
  proof (cases "r = 0")
    case True
    then show ?thesis by (simp add: nq)
  next
    case False
    then have "50 * q + r + 49 = 50 * (q + 1) + (r - 1)" by simp
    moreover have "(50 * (q + 1) + (r - 1)) div 50 = q + 1" using r by simp
    ultimately show ?thesis using False by (simp add: nq)
  qed
  show "real_of_int (int ((n + 49) div 50)) - 1 < real n / 50"
    unfolding d using r by (auto simp: nq field_simps)
  show "real n / 50 \<le> real_of_int (int ((n + 49) div 50))"
    unfolding d using r by (auto simp: nq field_simps)
qed

lemma numRequests_div [code]: "numRequests n = (n + 49) div 50"
  by (simp add: numRequests_def ceiling_div_50)

lemma div_50_cases: "(n + 49) div 50 = (if n mod 50 = 0 then n div 50 else n div 50 + 1)"
  for n :: nat
proof -
  define q where "q = n div 50"
  define r where "r = n mod 50"
  have nq: "n = 50 * q + r" and r: "r < 50"
    by (simp_all add: q_def r_def)
  have d: "(n + 49) div 50 = (if r = 0 then q else q + 1)"
  proof (cases "r = 0")
    case True
    then show ?thesis by (simp add: nq)
  next
    case False
    then have "50 * q + r + 49 = 50 * (q + 1) + (r - 1)" by simp
    moreover have "(50 * (q + 1) + (r - 1)) div 50 = q + 1" using r by simp
    ultimately show ?thesis using False by (simp add: nq)
  qed
  then show ?thesis by (simp add: q_def r_def)
qed

lemma numRequests_cases:
  "numRequests n = (if n mod 50 = 0 then n div 50 else n div 50 + 1)"
  by (simp only: numRequests_div div_50_cases)

lemma numRequests_pos: "0 < n \<Longrightarrow> 0 < numRequests n"
  by (simp add: numRequests_cases) (metis dvd_div_eq_0_iff gr0I mod_0_imp_dvd)

lemma plan_shape:
  assumes "0 < n"
  shows "plan n = replicate (numRequests n - 1) 50 @ [if n mod 50 \<noteq> 0 then n mod 50 else 50]"
proof -
  obtain k where k: "numRequests n = Suc k"
    using numRequests_pos [OF assms] by (cases "numRequests n") auto
  have "map (amountInThisRequest n) [0..<k] = map (\<lambda>i. 50) [0..<k]"
    by (rule map_cong) (auto simp: amountInThisRequest_def k)
  then have "map (amountInThisRequest n) [0..<k] = replicate k 50"
    by (simp add: map_replicate_const)
  moreover have "amountInThisRequest n k = (if n mod 50 \<noteq> 0 then n mod 50 else 50)"
    by (simp add: amountInThisRequest_def k)
  ultimately show ?thesis
    by (simp add: plan_def k)
qed

lemma sum_plan: assumes "0 < n" shows "sum_list (plan n) = n"
proof -
  have "50 * (numRequests n - 1) + (if n mod 50 \<noteq> 0 then n mod 50 else 50) = n"
  proof (cases "n mod 50 = 0")
    case True
    then have "50 * (n div 50) = n" by auto
    moreover have "0 < n div 50" using assms True
      by (metis dvd_div_eq_0_iff gr0I mod_0_imp_dvd)
    ultimately show ?thesis using True by (simp add: numRequests_cases algebra_simps)
  next
    case False
    then show ?thesis by (simp add: numRequests_cases)
  qed
  then show ?thesis
    by (simp add: plan_shape [OF assms] sum_list_replicate)
qed

section \<open>The loop\<close>

lemma fetch_frame:
  "fetch a e s = (r, s1) \<Longrightarrow>
     questions s1 = questions s \<and> loading s1 = loading s \<and> error s1 = error s
     \<and> sessionStorage s1 = sessionStorage s \<and> waited s1 = waited s"
  by (auto simp: fetch_def Let_def split: if_splits request_outcome.splits)

lemma fetch_Inr:
  "fetch a e s = (Inr r, s1) \<Longrightarrow>
     outcome e = Responded r \<and> \<not> aborted s \<and> s1 = s\<lparr>requests := requests s @ [a]\<rparr>"
  by (auto simp: fetch_def Let_def split: if_splits request_outcome.splits)

lemma batch_step_frame:
  "batch_step tc n e i acc s = (r, s1) \<Longrightarrow>
     questions s1 = questions s \<and> loading s1 = loading s \<and> error s1 = error s
     \<and> sessionStorage s1 = sessionStorage s"
  unfolding batch_step_def
  by (auto simp: Let_def wait_def split: prod.splits sum.splits if_splits dest!: fetch_frame)

lemma batch_step_Inr:
  assumes "batch_step tc n e i acc s = (Inr acc', s1)"
  shows "acc' = acc @ map (decodeQuestion tc) (delivered e)
     \<and> requests s1 = requests s @ [amountInThisRequest n i]
     \<and> \<not> aborted s"
  using assms unfolding batch_step_def
  by (auto simp: Let_def wait_def delivered_def split: prod.splits sum.splits if_splits dest!: fetch_Inr)

lemma fetchLoop_Inr:
  "fetchLoop tc n b i acc s = (Inr qs, s') \<Longrightarrow>
     qs = acc @ concat (map (\<lambda>j. map (decodeQuestion tc) (delivered (b j))) [i..<numRequests n])
     \<and> requests s' = requests s @ map (amountInThisRequest n) [i..<numRequests n]"
proof (induction tc n b i acc s rule: fetchLoop.induct)
  case (1 tc n b i acc s)
  show ?case
  proof (cases "i < numRequests n")
    case False
    with "1.prems" show ?thesis by (simp add: fetchLoop.simps)
  next
    case True
    obtain r s1 where step: "batch_step tc n (b i) i acc s = (r, s1)"
      by (cases "batch_step tc n (b i) i acc s")
    with True "1.prems" obtain acc' where r: "r = Inr acc'"
      and rest: "fetchLoop tc n b (i + 1) acc' s1 = (Inr qs, s')"
      by (cases r) (auto simp: fetchLoop.simps [of tc n b i])
    note ih = "1.IH" [OF True step [unfolded r, symmetric] refl rest]
    note st = batch_step_Inr [OF step [unfolded r]]
    from True have upt: "[i..<numRequests n] = i # [i + 1..<numRequests n]"
      by (simp add: upt_conv_Cons)
    show ?thesis using ih st by (simp add: upt)
  qed
qed

lemma fetchLoop_frame:
  "fetchLoop tc n b i acc s = (r, s') \<Longrightarrow>
     questions s' = questions s \<and> loading s' = loading s \<and> error s' = error s
     \<and> sessionStorage s' = sessionStorage s"
proof (induction tc n b i acc s rule: fetchLoop.induct)
  case (1 tc n b i acc s)
  show ?case
  proof (cases "i < numRequests n")
    case False
    with "1.prems" show ?thesis by (auto simp: fetchLoop.simps)
  next
    case True
    obtain r1 s1 where step: "batch_step tc n (b i) i acc s = (r1, s1)"
      by (cases "batch_step tc n (b i) i acc s")
    note fr = batch_step_frame [OF step]
    show ?thesis
    proof (cases r1)
      case (Inl x)
      with True step "1.prems" have "s' = s1"
        by (simp add: fetchLoop.simps [of tc n b i])
      with fr show ?thesis by simp
    next
      case (Inr acc')
      with True step "1.prems" have rest: "fetchLoop tc n b (i + 1) acc' s1 = (r, s')"
        by (simp add: fetchLoop.simps [of tc n b i])
      from "1.IH" [OF True step [unfolded Inr, symmetric] refl rest] fr
      show ?thesis by simp
    qed
  qed
qed

lemma length_concat_upt:
  "length (concat (map f [0..<k])) = sum_list (map (\<lambda>i. length (f i)) [0..<k])"
  by (simp add: length_concat comp_def)

lemma tryBlock_None:
  assumes "tryBlock tc n v s = (None, s1)"
  shows "questions s1 = concat (map (\<lambda>i. map (decodeQuestion tc) (delivered (batch v i))) [0..<numRequests n])"
  using assms unfolding tryBlock_def setItem_def
  by (auto split: prod.splits sum.splits option.splits dest!: fetchLoop_Inr)

lemma finallyBlock_frame:
  "questions (finallyBlock s) = questions s \<and> error (finallyBlock s) = error s
   \<and> sessionStorage (finallyBlock s) = sessionStorage s \<and> aborted (finallyBlock s) = aborted s
   \<and> requests (finallyBlock s) = requests s \<and> waited (finallyBlock s) = waited s"
  by (simp add: finallyBlock_def)

section \<open>What a run leaves unchanged\<close>

lemma cacheCheck_Miss_frame:
  "cacheCheck n s = Miss s0 \<Longrightarrow>
     questions s0 = questions s \<and> loading s0 = loading s \<and> error s0 = error s
     \<and> aborted s0 = aborted s \<and> requests s0 = requests s \<and> waited s0 = waited s"
  by (auto simp: cacheCheck_def removeItem_def
           split: option.splits if_splits sum.splits json_value.splits)

lemma tryBlock_Some:
  assumes "tryBlock tc n v s = (Some e, s1)"
  shows "questions s1 = questions s \<and> loading s1 = loading s \<and> error s1 = error s
     \<and> sessionStorage s1 = sessionStorage s"
  using assms unfolding tryBlock_def setItem_def
  by (auto split: prod.splits sum.splits option.splits dest!: fetchLoop_frame)

lemma cacheCheck_Hit:
  "cacheCheck n s = Hit h \<Longrightarrow>
     \<exists>qs. sessionStorage s (CACHE_KEY n) = Some (Serialized (Json_questions qs)) \<and> qs \<noteq> []
        \<and> h = s\<lparr>questions := qs, loading := False\<rparr>"
  by (auto simp: cacheCheck_def split: option.splits if_splits sum.splits json_value.splits
           elim: JSON_parse.elims)

lemma networkRun_failure:
  assumes run: "tryBlock tc n v (s0\<lparr>loading := True, error := None\<rparr>) = (Some e, s1)"
    and other: "\<not> cancellation e"
  shows "error (networkRun tc n v s0) =
           Some (case e of Error n m \<Rightarrow> m | NonError \<Rightarrow> ''An unknown error occurred.'')
       \<and> loading (networkRun tc n v s0) = aborted s1
       \<and> questions (networkRun tc n v s0) = questions s0
       \<and> sessionStorage (networkRun tc n v s0) = sessionStorage s0"
proof -
  note fr = tryBlock_Some [OF run]
  have fd: "networkRun tc n v s0 = finallyBlock (catchBlock e s1)"
    by (simp add: networkRun_def run)
  show ?thesis
    using other fr unfolding fd
    by (cases e) (auto simp: finallyBlock_def catchBlock_def cancellation_def)
qed

section \<open>Plain text\<close>


section \<open>Decoding without a parser\<close>


section \<open>A cancellation that fetch reports\<close>

text \<open>
  When the exception that leaves the \<^verbatim>\<open>try\<close> block is one the \<^verbatim>\<open>catch\<close> clause takes
  for a cancellation, the run publishes no error, no questions and writes no cache entry.
  This is the path of a request aborted in flight and of a \<^verbatim>\<open>fetch\<close> called with an
  aborted signal.
\<close>

lemma cancellation_is_silent:
  assumes miss: "cacheCheck totalAmount s = Miss s0"
    and run: "tryBlock textContent totalAmount v (s0\<lparr>loading := True, error := None\<rparr>) = (Some e, s1)"
    and cancelled: "cancellation e"
  shows "error (fetchData textContent totalAmount v s) = None
       \<and> questions (fetchData textContent totalAmount v s) = questions s
       \<and> sessionStorage (fetchData textContent totalAmount v s) = sessionStorage s0
       \<and> loading (fetchData textContent totalAmount v s) = aborted s1"
proof -
  note fr = tryBlock_Some [OF run] cacheCheck_Miss_frame [OF miss]
  have fd: "fetchData textContent totalAmount v s = finallyBlock (catchBlock e s1)"
    by (simp add: fetchData_def miss networkRun_def run)
  show ?thesis
    using cancelled fr unfolding fd
    by (cases e) (auto simp: finallyBlock_def catchBlock_def cancellation_def)
qed

lemma abort_in_flight_is_silent:
  "error (fetchData example_textContent 80 cancelled_in_flight (initial_world Map.empty)) = None
   \<and> questions (fetchData example_textContent 80 cancelled_in_flight (initial_world Map.empty)) = []
   \<and> requests (fetchData example_textContent 80 cancelled_in_flight (initial_world Map.empty)) = [50, 30]
   \<and> sessionStorage (fetchData example_textContent 80 cancelled_in_flight (initial_world Map.empty))
        (CACHE_KEY 80) = None"
  by code_simp

section \<open>Claims\<close>

text \<open>
  C2. For every \<open>totalAmount > 0\<close> the loop asks for \<open>ceil(totalAmount / 50)\<close> batches;
  every batch is of 50 records except the last, which is of \<open>totalAmount mod 50\<close> when
  that is not zero; every size is positive and at most 50, the sizes sum to
  \<open>totalAmount\<close>, and a run whose loop completes has issued exactly the requests of the
  plan, in order.
\<close>

theorem batch_plan:
  assumes "0 < totalAmount"
  shows "length (plan totalAmount) = nat \<lceil>real totalAmount / 50\<rceil>
     \<and> sum_list (plan totalAmount) = totalAmount
     \<and> (\<forall>a \<in> set (plan totalAmount). 0 < a \<and> a \<le> 50)
     \<and> butlast (plan totalAmount) = replicate (length (plan totalAmount) - 1) 50
     \<and> last (plan totalAmount) = (if totalAmount mod 50 \<noteq> 0 then totalAmount mod 50 else 50)
     \<and> (\<forall>textContent b s qs s'.
          fetchLoop textContent totalAmount b 0 [] s = (Inr qs, s')
          \<longrightarrow> requests s' = requests s @ plan totalAmount)"
proof -
  note shape = plan_shape [OF assms]
  have len: "length (plan totalAmount) = nat \<lceil>real totalAmount / 50\<rceil>"
    by (simp add: plan_def numRequests_def)
  have bound: "\<forall>a \<in> set (plan totalAmount). 0 < a \<and> a \<le> 50"
    by (auto simp: plan_def amountInThisRequest_def)
  have but: "butlast (plan totalAmount) = replicate (length (plan totalAmount) - 1) 50"
    by (subst (1 2) shape) simp
  have lst: "last (plan totalAmount) = (if totalAmount mod 50 \<noteq> 0 then totalAmount mod 50 else 50)"
    by (subst shape) simp
  have run: "\<forall>textContent b s qs s'.
          fetchLoop textContent totalAmount b 0 [] s = (Inr qs, s')
          \<longrightarrow> requests s' = requests s @ plan totalAmount"
    by (auto simp: plan_def dest: fetchLoop_Inr)
  from len sum_plan [OF assms] bound but lst run show ?thesis by blast
qed

theorem batch_plan_witness:
  "plan 80 = [50, 30]
   \<and> length (plan 80) = nat \<lceil>real 80 / 50\<rceil>
   \<and> sum_list (plan 80) = 80
   \<and> butlast (plan 80) = replicate (length (plan 80) - 1) 50
   \<and> last (plan 80) = 30
   \<and> fst (fetchLoop example_textContent 80 (batch (honest_env 80)) 0 [] (initial_world Map.empty))
       = Inr (replicate 80 (decodeQuestion example_textContent raw_question))
   \<and> requests (snd (fetchLoop example_textContent 80 (batch (honest_env 80)) 0 []
                       (initial_world Map.empty))) = [50, 30]"
proof -
  let ?l = "fetchLoop example_textContent 80 (batch (honest_env 80)) 0 [] (initial_world Map.empty)"
  have p: "plan 80 = [50, 30]"
    by code_simp
  have all: "fst ?l = Inr (replicate 80 (decodeQuestion example_textContent raw_question))"
    by code_simp
  then have loop: "?l = (Inr (replicate 80 (decodeQuestion example_textContent raw_question)), snd ?l)"
    by (metis prod.collapse)
  have "(0::nat) < 80"
    by simp
  note facts = batch_plan [OF this]
  from facts have a: "length (plan 80) = nat \<lceil>real 80 / 50\<rceil> \<and> sum_list (plan 80) = 80
      \<and> butlast (plan 80) = replicate (length (plan 80) - 1) 50"
    by blast
  from facts have b: "last (plan 80) = 30"
    by simp
  from facts loop have "requests (snd ?l) = requests (initial_world Map.empty) @ plan 80"
    by blast
  then have c: "requests (snd ?l) = [50, 30]"
    by (simp add: p initial_world_def)
  from p a b all c show ?thesis by blast
qed

text \<open>
  C1, as amended. When the run misses the cache and its \<^verbatim>\<open>try\<close> block completes, the
  published questions are the decoded batches in the order of the requests, the records
  of batch \<open>i\<close> before those of batch \<open>i + 1\<close>, whatever the source delivered; their
  number is the number of records delivered, which is \<open>totalAmount\<close> when every response
  holds as many records as its request asked for. The code does not compare the number
  of records of a response with the amount it asked for. When the run hits the cache,
  the published questions are the stored list, whatever its length, and nothing is
  requested.
\<close>

theorem published_length_and_order:
  "(\<forall>s0 s1.
      cacheCheck totalAmount s = Miss s0
      \<and> tryBlock textContent totalAmount v (s0\<lparr>loading := True, error := None\<rparr>) = (None, s1)
      \<longrightarrow>
        questions (fetchData textContent totalAmount v s) =
          concat (map (\<lambda>i. map (decodeQuestion textContent) (delivered (batch v i)))
                    [0..<numRequests totalAmount])
        \<and> length (questions (fetchData textContent totalAmount v s)) =
            sum_list (map (\<lambda>i. length (delivered (batch v i))) [0..<numRequests totalAmount])
        \<and> ((\<forall>i < numRequests totalAmount.
                length (delivered (batch v i)) = amountInThisRequest totalAmount i)
             \<longrightarrow> length (questions (fetchData textContent totalAmount v s)) = totalAmount))
   \<and> (\<forall>cached.
        sessionStorage s (CACHE_KEY totalAmount) = Some (JSON_stringify cached) \<and> cached \<noteq> []
        \<longrightarrow> questions (fetchData textContent totalAmount v s) = cached
            \<and> requests (fetchData textContent totalAmount v s) = requests s)"
proof (intro conjI allI impI)
  fix s0 s1
  assume h: "cacheCheck totalAmount s = Miss s0
      \<and> tryBlock textContent totalAmount v (s0\<lparr>loading := True, error := None\<rparr>) = (None, s1)"
  then have miss: "cacheCheck totalAmount s = Miss s0"
    and run: "tryBlock textContent totalAmount v (s0\<lparr>loading := True, error := None\<rparr>) = (None, s1)"
    by simp_all
  let ?qs = "concat (map (\<lambda>i. map (decodeQuestion textContent) (delivered (batch v i)))
                     [0..<numRequests totalAmount])"
  show pub: "questions (fetchData textContent totalAmount v s) = ?qs"
    using tryBlock_None [OF run] by (simp add: fetchData_def miss networkRun_def run finallyBlock_frame)
  show len: "length (questions (fetchData textContent totalAmount v s)) =
      sum_list (map (\<lambda>i. length (delivered (batch v i))) [0..<numRequests totalAmount])"
    unfolding pub by (simp add: length_concat_upt)
  assume amount: "\<forall>i < numRequests totalAmount.
      length (delivered (batch v i)) = amountInThisRequest totalAmount i"
  have "sum_list (map (\<lambda>i. length (delivered (batch v i))) [0..<numRequests totalAmount])
      = sum_list (map (amountInThisRequest totalAmount) [0..<numRequests totalAmount])"
    using amount by (intro arg_cong [where f = sum_list] map_cong) auto
  also have "\<dots> = totalAmount"
  proof (cases "totalAmount = 0")
    case True
    then show ?thesis by (simp add: numRequests_div)
  next
    case False
    then show ?thesis using sum_plan [of totalAmount] by (simp add: plan_def)
  qed
  finally show "length (questions (fetchData textContent totalAmount v s)) = totalAmount"
    using len by simp
next
  fix cached
  assume "sessionStorage s (CACHE_KEY totalAmount) = Some (JSON_stringify cached) \<and> cached \<noteq> []"
  then have "cacheCheck totalAmount s = Hit (s\<lparr>questions := cached, loading := False\<rparr>)"
    by (simp add: cacheCheck_def JSON_stringify_def truthy_def)
  then show "questions (fetchData textContent totalAmount v s) = cached"
    and "requests (fetchData textContent totalAmount v s) = requests s"
    by (simp_all add: fetchData_def)
qed

theorem published_length_and_order_witness:
  "cacheCheck 52 (initial_world Map.empty) = Miss (initial_world Map.empty)
   \<and> fst (tryBlock example_textContent 52 (honest_env 52)
            ((initial_world Map.empty)\<lparr>loading := True, error := None\<rparr>)) = None
   \<and> length (delivered (batch (honest_env 52) 0)) = 50
   \<and> length (delivered (batch (honest_env 52) 1)) = 2
   \<and> length (questions (fetchData example_textContent 52 (honest_env 52) (initial_world Map.empty))) = 52
   \<and> fst (tryBlock example_textContent 50 (source_delivers [raw_question, reference_in_type])
            ((initial_world Map.empty)\<lparr>loading := True, error := None\<rparr>)) = None
   \<and> questions (fetchData example_textContent 50 (source_delivers [raw_question, reference_in_type])
                  (initial_world Map.empty))
       = [decodeQuestion example_textContent raw_question,
          decodeQuestion example_textContent reference_in_type]
   \<and> questions (fetchData example_textContent 50 (honest_env 50)
                  (initial_world [CACHE_KEY 50 \<mapsto> JSON_stringify [raw_question]]))
       = [raw_question]
   \<and> requests (fetchData example_textContent 50 (honest_env 50)
                  (initial_world [CACHE_KEY 50 \<mapsto> JSON_stringify [raw_question]])) = []"
proof -
  let ?s = "initial_world Map.empty"
  let ?t = "tryBlock example_textContent 52 (honest_env 52) (?s\<lparr>loading := True, error := None\<rparr>)"
  let ?v = "source_delivers [raw_question, reference_in_type]"
  let ?u = "tryBlock example_textContent 50 ?v (?s\<lparr>loading := True, error := None\<rparr>)"
  let ?c = "initial_world [CACHE_KEY 50 \<mapsto> JSON_stringify [raw_question]]"
  have miss: "cacheCheck 52 ?s = Miss ?s" and miss': "cacheCheck 50 ?s = Miss ?s"
    by (simp_all add: cacheCheck_def initial_world_def)
  have none: "fst ?t = None"
    by code_simp
  then have run: "?t = (None, snd ?t)"
    by (metis prod.collapse)
  have amount: "\<forall>i < numRequests 52.
      length (delivered (batch (honest_env 52) i)) = amountInThisRequest 52 i"
    by (simp add: honest_env_def ok_response_def delivered_def)
  have a0: "length (delivered (batch (honest_env 52) 0)) = 50"
    and a1: "length (delivered (batch (honest_env 52) 1)) = 2"
    by code_simp+
  from published_length_and_order [of 52 ?s example_textContent "honest_env 52"] miss run amount
  have 1: "length (questions (fetchData example_textContent 52 (honest_env 52) ?s)) = 52"
    by blast
  have none': "fst ?u = None"
    by code_simp
  then have run': "?u = (None, snd ?u)"
    by (metis prod.collapse)
  have nr: "[0..<numRequests 50] = [0]"
    by code_simp
  have d: "delivered (batch ?v 0) = [raw_question, reference_in_type]"
    by (simp add: source_delivers_def ok_response_def delivered_def)
  from published_length_and_order [of 50 ?s example_textContent ?v] miss' run'
  have "questions (fetchData example_textContent 50 ?v ?s)
      = concat (map (\<lambda>i. map (decodeQuestion example_textContent) (delivered (batch ?v i)))
                  [0..<numRequests 50])"
    by blast
  then have 2: "questions (fetchData example_textContent 50 ?v ?s)
      = [decodeQuestion example_textContent raw_question,
         decodeQuestion example_textContent reference_in_type]"
    by (simp only: nr d list.map concat.simps append_Nil2)
  have stored: "sessionStorage ?c (CACHE_KEY 50) = Some (JSON_stringify [raw_question])
      \<and> [raw_question] \<noteq> []"
    by (simp add: initial_world_def)
  from published_length_and_order [of 50 ?c example_textContent "honest_env 50"] stored
  have "questions (fetchData example_textContent 50 (honest_env 50) ?c) = [raw_question]
      \<and> requests (fetchData example_textContent 50 (honest_env 50) ?c) = requests ?c"
    by blast
  then have 3: "questions (fetchData example_textContent 50 (honest_env 50) ?c) = [raw_question]
      \<and> requests (fetchData example_textContent 50 (honest_env 50) ?c) = []"
    by (simp add: initial_world_def)
  from miss none a0 a1 1 none' 2 3 show ?thesis by blast
qed

text \<open>
  C1, as stated, fails: a source that answers a request for 50 records with response
  code 0 and a single record makes a run for 50 that completes, publishes one question
  and caches it.
\<close>

theorem short_response_is_published:
  "error (fetchData example_textContent 50 (source_delivers [raw_question]) (initial_world Map.empty))
     = None
   \<and> \<not> loading (fetchData example_textContent 50 (source_delivers [raw_question])
                   (initial_world Map.empty))
   \<and> requests (fetchData example_textContent 50 (source_delivers [raw_question])
                   (initial_world Map.empty)) = [50]
   \<and> length (questions (fetchData example_textContent 50 (source_delivers [raw_question])
                            (initial_world Map.empty))) = 1
   \<and> sessionStorage (fetchData example_textContent 50 (source_delivers [raw_question])
                            (initial_world Map.empty)) (CACHE_KEY 50)
       = Some (JSON_stringify [decodeQuestion example_textContent raw_question])"
  by code_simp

text \<open>
  C3. Cancellation before a batch completes: no cache write, no published error, no
  further request. The code does not keep the second part: when the signal is found
  aborted at the check before the delay (line 133), the \<^verbatim>\<open>Error\<close> it throws has the
  message "AbortError" but the name "Error", so the \<^verbatim>\<open>catch\<close> clause publishes its
  message as the error. Here the requested total is 80 and the signal is aborted once
  the body of the first batch was read.
\<close>

theorem abort_before_delay_sets_error:
  "error (fetchData example_textContent 80 cancelled_after_body (initial_world Map.empty)) = Some ''AbortError''
   \<and> aborted (fetchData example_textContent 80 cancelled_after_body (initial_world Map.empty))
   \<and> loading (fetchData example_textContent 80 cancelled_after_body (initial_world Map.empty))
   \<and> requests (fetchData example_textContent 80 cancelled_after_body (initial_world Map.empty)) = [50]
   \<and> sessionStorage (fetchData example_textContent 80 cancelled_after_body (initial_world Map.empty))
        (CACHE_KEY 80) = None"
  by code_simp

text \<open>
  C4, as amended. A run that misses the cache and fails with an exception that is not a
  cancellation publishes the message of the exception as the error; it leaves the
  questions as they were before the run (they are not cleared) and the storage as the
  cache check left it; loading is false unless the signal was aborted by then.
\<close>

theorem failure_publishes_message:
  assumes miss: "cacheCheck totalAmount s = Miss s0"
    and run: "tryBlock textContent totalAmount v (s0\<lparr>loading := True, error := None\<rparr>) = (Some e, s1)"
    and other: "\<not> cancellation e"
  shows "error (fetchData textContent totalAmount v s) =
           Some (case e of Error n m \<Rightarrow> m | NonError \<Rightarrow> ''An unknown error occurred.'')
       \<and> loading (fetchData textContent totalAmount v s) = aborted s1
       \<and> questions (fetchData textContent totalAmount v s) = questions s
       \<and> sessionStorage (fetchData textContent totalAmount v s) = sessionStorage s0"
  using networkRun_failure [OF run other] cacheCheck_Miss_frame [OF miss]
  by (simp add: fetchData_def miss)

theorem failure_publishes_message_witness:
  "cacheCheck 50 (useEffect example_textContent 1 (honest_env 1) (initial_world Map.empty))
     = Miss (useEffect example_textContent 1 (honest_env 1) (initial_world Map.empty))
   \<and> fst (tryBlock example_textContent 50 (api_rejects 5)
            ((useEffect example_textContent 1 (honest_env 1) (initial_world Map.empty))
               \<lparr>loading := True, error := None\<rparr>))
       = Some (Error ''Error'' ''Trivia API Error Code: 5'')
   \<and> \<not> cancellation (Error ''Error'' ''Trivia API Error Code: 5'')
   \<and> error (fetchData example_textContent 50 (api_rejects 5)
              (useEffect example_textContent 1 (honest_env 1) (initial_world Map.empty)))
       = Some ''Trivia API Error Code: 5''"
proof -
  let ?s = "useEffect example_textContent 1 (honest_env 1) (initial_world Map.empty)"
  let ?t = "tryBlock example_textContent 50 (api_rejects 5) (?s\<lparr>loading := True, error := None\<rparr>)"
  have key: "sessionStorage ?s (CACHE_KEY 50) = None" by code_simp
  have miss: "cacheCheck 50 ?s = Miss ?s"
    by (simp only: cacheCheck_def key option.case)
  have thrown: "fst ?t = Some (Error ''Error'' ''Trivia API Error Code: 5'')"
    by code_simp
  then have run: "?t = (Some (Error ''Error'' ''Trivia API Error Code: 5''), snd ?t)"
    by (metis prod.collapse)
  have other: "\<not> cancellation (Error ''Error'' ''Trivia API Error Code: 5'')"
    by (simp add: cancellation_def)
  from failure_publishes_message [OF miss run other] miss thrown other
  show ?thesis by simp
qed

text \<open>
  C4, as stated, fails: after a run for 1 question has published its question, a run
  for 50 that the source rejects with code 5 publishes the error and the question of the
  earlier run is still there.
\<close>

theorem failure_keeps_previous_questions:
  "error (useEffect example_textContent 50 (api_rejects 5)
            (useEffect example_textContent 1 (honest_env 1) (initial_world Map.empty)))
     = Some ''Trivia API Error Code: 5''
   \<and> questions (useEffect example_textContent 50 (api_rejects 5)
            (useEffect example_textContent 1 (honest_env 1) (initial_world Map.empty)))
     = [decodeQuestion example_textContent raw_question]"
  by code_simp

text \<open>
  C5. On first activation and whenever the requested total changes, loading is set to
  true and the error reset to null before data is published, also on the cache-hit
  path, so that an error and questions are never seen together. The code does not keep
  this on the cache-hit path: the reset of lines 91-92 stands after the early return of
  line 82, so a hit publishes the stored questions and leaves the error of an earlier
  run in place. Here a run for 1 question fills the cache; after a reload (the state of
  the hook starts anew, the session storage stays) a run for 50 fails with response code
  5 and has settled; then the requested total becomes 1 and the run hits the cache.
\<close>

theorem cache_hit_leaves_error:
  "error (useEffect example_textContent 50 (api_rejects 5)
            (initial_world (sessionStorage
               (useEffect example_textContent 1 (honest_env 1) (initial_world Map.empty)))))
     = Some ''Trivia API Error Code: 5''
   \<and> questions (useEffect example_textContent 50 (api_rejects 5)
            (initial_world (sessionStorage
               (useEffect example_textContent 1 (honest_env 1) (initial_world Map.empty)))))
     = []
   \<and> error (useEffect example_textContent 1 (honest_env 1)
           (useEffect example_textContent 50 (api_rejects 5)
             (initial_world (sessionStorage
                (useEffect example_textContent 1 (honest_env 1) (initial_world Map.empty))))))
     = Some ''Trivia API Error Code: 5''
   \<and> questions (useEffect example_textContent 1 (honest_env 1)
           (useEffect example_textContent 50 (api_rejects 5)
             (initial_world (sessionStorage
                (useEffect example_textContent 1 (honest_env 1) (initial_world Map.empty))))))
     = [decodeQuestion example_textContent raw_question]
   \<and> \<not> loading (useEffect example_textContent 1 (honest_env 1)
           (useEffect example_textContent 50 (api_rejects 5)
             (initial_world (sessionStorage
                (useEffect example_textContent 1 (honest_env 1) (initial_world Map.empty))))))
   \<and> requests (useEffect example_textContent 1 (honest_env 1)
           (useEffect example_textContent 50 (api_rejects 5)
             (initial_world (sessionStorage
                (useEffect example_textContent 1 (honest_env 1) (initial_world Map.empty))))))
     = [50]"
  by code_simp

text \<open>
  C6, as amended. When every batch was fetched and the final cache write throws an
  exception that is not a cancellation, the same \<^verbatim>\<open>catch\<close> clause handles it: the
  message of the exception is published as the error, the assembled questions are not
  published (the questions stay as they were before the run), nothing is stored, and
  loading is false unless the signal was aborted.
\<close>

theorem cache_write_failure_is_published:
  assumes miss: "cacheCheck totalAmount s = Miss s0"
    and loop: "fetchLoop textContent totalAmount (batch v) 0 [] (s0\<lparr>loading := True, error := None\<rparr>)
                 = (Inr allFetchedQuestions, s1)"
    and throws: "setItem_throws v = Some e"
    and other: "\<not> cancellation e"
  shows "error (fetchData textContent totalAmount v s) =
           Some (case e of Error n m \<Rightarrow> m | NonError \<Rightarrow> ''An unknown error occurred.'')
       \<and> loading (fetchData textContent totalAmount v s) = aborted s1
       \<and> questions (fetchData textContent totalAmount v s) = questions s
       \<and> sessionStorage (fetchData textContent totalAmount v s) = sessionStorage s0"
proof -
  have run: "tryBlock textContent totalAmount v (s0\<lparr>loading := True, error := None\<rparr>) = (Some e, s1)"
    by (simp add: tryBlock_def loop setItem_def throws)
  from networkRun_failure [OF run other] cacheCheck_Miss_frame [OF miss]
  show ?thesis by (simp add: fetchData_def miss)
qed

theorem cache_write_failure_is_published_witness:
  "cacheCheck 2 (initial_world Map.empty) = Miss (initial_world Map.empty)
   \<and> fst (fetchLoop example_textContent 2 (batch (quota_exceeded 2)) 0 []
            ((initial_world Map.empty)\<lparr>loading := True, error := None\<rparr>))
       = Inr (replicate 2 (decodeQuestion example_textContent raw_question))
   \<and> setItem_throws (quota_exceeded 2) = Some (Error ''QuotaExceededError'' ''The quota has been exceeded.'')
   \<and> \<not> cancellation (Error ''QuotaExceededError'' ''The quota has been exceeded.'')
   \<and> error (fetchData example_textContent 2 (quota_exceeded 2) (initial_world Map.empty))
       = Some ''The quota has been exceeded.''
   \<and> questions (fetchData example_textContent 2 (quota_exceeded 2) (initial_world Map.empty)) = []
   \<and> \<not> loading (fetchData example_textContent 2 (quota_exceeded 2) (initial_world Map.empty))"
proof -
  let ?s = "initial_world Map.empty"
  let ?l = "fetchLoop example_textContent 2 (batch (quota_exceeded 2)) 0 []
              (?s\<lparr>loading := True, error := None\<rparr>)"
  let ?e = "Error ''QuotaExceededError'' ''The quota has been exceeded.''"
  have miss: "cacheCheck 2 ?s = Miss ?s"
    by (simp add: cacheCheck_def initial_world_def)
  have all: "fst ?l = Inr (replicate 2 (decodeQuestion example_textContent raw_question))"
    by code_simp
  then have loop: "?l = (Inr (replicate 2 (decodeQuestion example_textContent raw_question)), snd ?l)"
    by (metis prod.collapse)
  have throws: "setItem_throws (quota_exceeded 2) = Some ?e"
    by (simp add: quota_exceeded_def)
  have other: "\<not> cancellation ?e"
    by (simp add: cancellation_def)
  have live: "\<not> aborted (snd ?l)"
    by code_simp
  have init: "questions ?s = []"
    by (simp add: initial_world_def)
  from cache_write_failure_is_published [OF miss loop throws other] miss all throws other live init
  show ?thesis by simp
qed

text \<open>
  C6, as stated, fails: with a full storage quota a run for 2 questions fetches both,
  publishes the message of the quota exception as the error and no questions.
\<close>

theorem cache_write_failure_hides_questions:
  "fst (fetchLoop example_textContent 2 (batch (quota_exceeded 2)) 0 []
          ((initial_world Map.empty)\<lparr>loading := True, error := None\<rparr>))
     = Inr (replicate 2 (decodeQuestion example_textContent raw_question))
   \<and> error (fetchData example_textContent 2 (quota_exceeded 2) (initial_world Map.empty))
       = Some ''The quota has been exceeded.''
   \<and> questions (fetchData example_textContent 2 (quota_exceeded 2) (initial_world Map.empty)) = []"
  by code_simp

text \<open>
  C7, as amended. The questions published by a run that misses the cache and completes
  are the delivered records, in order, with \<^verbatim>\<open>category\<close>, \<^verbatim>\<open>question\<close>,
  \<^verbatim>\<open>correct_answer\<close> and every element of \<^verbatim>\<open>incorrect_answers\<close> decoded;
  \<^verbatim>\<open>type\<close> and \<^verbatim>\<open>difficulty\<close> are published as delivered.
\<close>

theorem decoded_fields:
  assumes miss: "cacheCheck totalAmount s = Miss s0"
    and run: "tryBlock textContent totalAmount v (s0\<lparr>loading := True, error := None\<rparr>) = (None, s1)"
  shows "questions (fetchData textContent totalAmount v s) =
           map (decodeQuestion textContent)
             (concat (map (\<lambda>i. delivered (batch v i)) [0..<numRequests totalAmount]))
       \<and> (\<forall>q. category (decodeQuestion textContent q) = decodeHtml textContent (category q)
              \<and> question (decodeQuestion textContent q) = decodeHtml textContent (question q)
              \<and> correct_answer (decodeQuestion textContent q) = decodeHtml textContent (correct_answer q)
              \<and> incorrect_answers (decodeQuestion textContent q)
                   = map (decodeHtml textContent) (incorrect_answers q)
              \<and> type (decodeQuestion textContent q) = type q
              \<and> difficulty (decodeQuestion textContent q) = difficulty q)"
proof -
  have "questions (fetchData textContent totalAmount v s) =
          concat (map (\<lambda>i. map (decodeQuestion textContent) (delivered (batch v i)))
                    [0..<numRequests totalAmount])"
    using tryBlock_None [OF run] by (simp add: fetchData_def miss networkRun_def run finallyBlock_frame)
  then show ?thesis
    by (simp add: map_concat comp_def decodeQuestion_def)
qed

theorem decoded_fields_witness:
  "cacheCheck 1 (initial_world Map.empty) = Miss (initial_world Map.empty)
   \<and> fst (tryBlock example_textContent 1 (source_delivers [raw_question])
            ((initial_world Map.empty)\<lparr>loading := True, error := None\<rparr>)) = None
   \<and> questions (fetchData example_textContent 1 (source_delivers [raw_question]) (initial_world Map.empty))
       = [\<lparr>category = ''Science & Nature'', type = ''multiple'', difficulty = easy,
           question = ''Salt & pepper?'', correct_answer = ''A & B'',
           incorrect_answers = [''C & D'', ''E'']\<rparr>]"
proof -
  let ?s = "initial_world Map.empty"
  let ?t = "tryBlock example_textContent 1 (source_delivers [raw_question])
              (?s\<lparr>loading := True, error := None\<rparr>)"
  have miss: "cacheCheck 1 ?s = Miss ?s"
    by (simp add: cacheCheck_def initial_world_def)
  have none: "fst ?t = None"
    by code_simp
  then have run: "?t = (None, snd ?t)"
    by (metis prod.collapse)
  have nr: "[0..<numRequests 1] = [0]"
    by code_simp
  have d: "delivered (batch (source_delivers [raw_question]) 0) = [raw_question]"
    by (simp add: source_delivers_def ok_response_def delivered_def)
  have q: "decodeQuestion example_textContent raw_question =
      \<lparr>category = ''Science & Nature'', type = ''multiple'', difficulty = easy,
           question = ''Salt & pepper?'', correct_answer = ''A & B'',
           incorrect_answers = [''C & D'', ''E'']\<rparr>"
    by code_simp
  from decoded_fields [OF miss run] have
    "questions (fetchData example_textContent 1 (source_delivers [raw_question]) ?s)
       = map (decodeQuestion example_textContent)
           (concat (map (\<lambda>i. delivered (batch (source_delivers [raw_question]) i)) [0..<numRequests 1]))"
    by blast
  then have "questions (fetchData example_textContent 1 (source_delivers [raw_question]) ?s)
       = [decodeQuestion example_textContent raw_question]"
    by (simp only: nr d list.map concat.simps append_Nil2)
  with miss none q show ?thesis by simp
qed

text \<open>
  C7, as stated, fails for \<^verbatim>\<open>type\<close>: a character reference in it is published as
  delivered, though the decoder would replace it.
\<close>

theorem type_is_not_decoded:
  "map type (questions (fetchData example_textContent 1 (source_delivers [reference_in_type])
                          (initial_world Map.empty)))
     = [''true &amp; false'']
   \<and> decodeHtml example_textContent ''true &amp; false'' = ''true & false''
   \<and> error (fetchData example_textContent 1 (source_delivers [reference_in_type])
                          (initial_world Map.empty)) = None"
  by code_simp




text \<open>
  C9, as amended. The delay always lasts its full time, whatever happens to the signal
  meanwhile. The signal is observed by \<^verbatim>\<open>fetch\<close>, which rejects without sending a
  request when the signal is aborted, and by the check after each batch but the last,
  before the delay, which throws without waiting. A signal aborted during the delay is
  seen only by the next \<^verbatim>\<open>fetch\<close>, once the 5000 ms have passed.
\<close>

theorem delay_is_not_abortable:
  "waited (wait ms abort_at s) = waited s + ms
   \<and> (aborted s \<longrightarrow> fetch amount e s = (Inl AbortError, s))
   \<and> (\<forall>r d. outcome e = Responded r \<and> ok r \<and> json r = Inr d \<and> response_code d = 0
          \<and> i + 1 < numRequests totalAmount \<and> \<not> aborted s \<and> abort_after_body e
        \<longrightarrow> fst (batch_step textContent totalAmount e i acc s) = Inl (new_Error ''AbortError'')
            \<and> waited (snd (batch_step textContent totalAmount e i acc s)) = waited s)
   \<and> (\<forall>r d t. outcome e = Responded r \<and> ok r \<and> json r = Inr d \<and> response_code d = 0
          \<and> i + 1 < numRequests totalAmount \<and> \<not> aborted s \<and> \<not> abort_after_body e
          \<and> abort_in_delay e = Some t \<and> t < 5000
        \<longrightarrow> waited (snd (batch_step textContent totalAmount e i acc s)) = waited s + 5000
            \<and> aborted (snd (batch_step textContent totalAmount e i acc s)))"
  by (auto simp: wait_def fetch_def batch_step_def Let_def)

theorem delay_is_not_abortable_witness:
  "waited (wait 5000 (Some 100) (initial_world Map.empty)) = 5000
   \<and> fetch 30 (batch cancelled_in_delay 1) ((initial_world Map.empty)\<lparr>aborted := True\<rparr>)
       = (Inl AbortError, (initial_world Map.empty)\<lparr>aborted := True\<rparr>)
   \<and> fst (batch_step example_textContent 80 (batch cancelled_after_body 0) 0 [] (initial_world Map.empty))
       = Inl (new_Error ''AbortError'')
   \<and> waited (snd (batch_step example_textContent 80 (batch cancelled_after_body 0) 0 []
                     (initial_world Map.empty))) = 0
   \<and> waited (snd (batch_step example_textContent 80 (batch cancelled_in_delay 0) 0 []
                     (initial_world Map.empty))) = 5000
   \<and> aborted (snd (batch_step example_textContent 80 (batch cancelled_in_delay 0) 0 []
                     (initial_world Map.empty)))"
proof -
  let ?s = "initial_world Map.empty"
  let ?r = "\<lparr>ok = True, status = 200,
             json = Inr \<lparr>response_code = 0, results = replicate 50 raw_question\<rparr>\<rparr>"
  let ?d = "\<lparr>response_code = 0, results = replicate 50 raw_question\<rparr>"
  have nr: "(0::nat) + 1 < numRequests 80"
    by (simp add: numRequests_div)
  have s: "\<not> aborted ?s" "waited ?s = 0"
    by (simp_all add: initial_world_def)
  have a: "aborted (?s\<lparr>aborted := True\<rparr>)"
    by simp
  have b: "outcome (batch cancelled_after_body 0) = Responded ?r \<and> ok ?r \<and> json ?r = Inr ?d
      \<and> response_code ?d = 0 \<and> abort_after_body (batch cancelled_after_body 0)"
    by (simp add: cancelled_after_body_def ok_response_def)
  have c: "outcome (batch cancelled_in_delay 0) = Responded ?r \<and> ok ?r \<and> json ?r = Inr ?d
      \<and> response_code ?d = 0 \<and> \<not> abort_after_body (batch cancelled_in_delay 0)
      \<and> abort_in_delay (batch cancelled_in_delay 0) = Some 100 \<and> (100::nat) < 5000"
    by (simp add: cancelled_in_delay_def ok_response_def)
  from delay_is_not_abortable [of 5000 "Some 100" ?s] s
  have 1: "waited (wait 5000 (Some 100) ?s) = 5000" by simp
  from delay_is_not_abortable [of _ _ "?s\<lparr>aborted := True\<rparr>" 30 "batch cancelled_in_delay 1"] a
  have 2: "fetch 30 (batch cancelled_in_delay 1) (?s\<lparr>aborted := True\<rparr>)
       = (Inl AbortError, ?s\<lparr>aborted := True\<rparr>)" by blast
  from delay_is_not_abortable [of _ _ ?s _ "batch cancelled_after_body 0" 0 80 example_textContent "[]"]
    nr s b
  have 3: "fst (batch_step example_textContent 80 (batch cancelled_after_body 0) 0 [] ?s)
       = Inl (new_Error ''AbortError'')
     \<and> waited (snd (batch_step example_textContent 80 (batch cancelled_after_body 0) 0 [] ?s)) = 0"
    by metis
  from delay_is_not_abortable [of _ _ ?s _ "batch cancelled_in_delay 0" 0 80 example_textContent "[]"]
    nr s c
  have 4: "waited (snd (batch_step example_textContent 80 (batch cancelled_in_delay 0) 0 [] ?s)) = 5000
     \<and> aborted (snd (batch_step example_textContent 80 (batch cancelled_in_delay 0) 0 [] ?s))"
    by (metis add_0)
  from 1 2 3 4 show ?thesis by blast
qed

text \<open>
  C9, as stated, fails: with the signal aborted 100 ms into the delay after the first of
  two batches, the run still spends 5000 ms in the delay before it ends; the second
  request is not sent.
\<close>

theorem abort_in_delay_waits_in_full:
  "abort_in_delay (batch cancelled_in_delay 0) = Some 100
   \<and> waited (fetchData example_textContent 80 cancelled_in_delay (initial_world Map.empty)) = 5000
   \<and> aborted (fetchData example_textContent 80 cancelled_in_delay (initial_world Map.empty))
   \<and> requests (fetchData example_textContent 80 cancelled_in_delay (initial_world Map.empty)) = [50]
   \<and> error (fetchData example_textContent 80 cancelled_in_delay (initial_world Map.empty)) = None"
  by code_simp

text \<open>
  C10, as amended. When the entry stored under the key of the requested total is a
  non-empty string that \<^verbatim>\<open>JSON.parse\<close> rejects, the cache check removes the entry
  and falls through: the run is the run on the storage without the entry, a fetch from
  the first batch on, and the check itself publishes no error.
\<close>

theorem corrupt_cache_is_a_miss:
  assumes entry: "sessionStorage s (CACHE_KEY totalAmount) = Some cachedData"
    and nonempty: "truthy cachedData"
    and corrupt: "JSON_parse cachedData = Inl e"
  shows "cacheCheck totalAmount s = Miss (removeItem (CACHE_KEY totalAmount) s)
     \<and> sessionStorage (removeItem (CACHE_KEY totalAmount) s) (CACHE_KEY totalAmount) = None
     \<and> fetchData textContent totalAmount v s
         = fetchData textContent totalAmount v (removeItem (CACHE_KEY totalAmount) s)
     \<and> fetchData textContent totalAmount v s
         = finallyBlock
             (case tryBlock textContent totalAmount v
                     ((removeItem (CACHE_KEY totalAmount) s)\<lparr>loading := True, error := None\<rparr>) of
                (None, s1) \<Rightarrow> s1
              | (Some x, s1) \<Rightarrow> catchBlock x s1)"
proof -
  have check: "cacheCheck totalAmount s = Miss (removeItem (CACHE_KEY totalAmount) s)"
    by (simp add: cacheCheck_def entry nonempty corrupt)
  have gone: "sessionStorage (removeItem (CACHE_KEY totalAmount) s) (CACHE_KEY totalAmount) = None"
    by (simp add: removeItem_def)
  then have again: "cacheCheck totalAmount (removeItem (CACHE_KEY totalAmount) s)
      = Miss (removeItem (CACHE_KEY totalAmount) s)"
    by (simp add: cacheCheck_def)
  show ?thesis
    using check gone again
    by (auto simp: fetchData_def networkRun_def split: prod.splits option.splits)
qed

theorem corrupt_cache_is_a_miss_witness:
  "sessionStorage (initial_world [CACHE_KEY 2 \<mapsto> Unparseable]) (CACHE_KEY 2) = Some Unparseable
   \<and> truthy Unparseable
   \<and> JSON_parse Unparseable = Inl (Error ''SyntaxError'' ''Unexpected token'')
   \<and> cacheCheck 2 (initial_world [CACHE_KEY 2 \<mapsto> Unparseable])
       = Miss (removeItem (CACHE_KEY 2) (initial_world [CACHE_KEY 2 \<mapsto> Unparseable]))
   \<and> fetchData example_textContent 2 (honest_env 2) (initial_world [CACHE_KEY 2 \<mapsto> Unparseable])
       = fetchData example_textContent 2 (honest_env 2)
           (removeItem (CACHE_KEY 2) (initial_world [CACHE_KEY 2 \<mapsto> Unparseable]))"
proof -
  let ?s = "initial_world [CACHE_KEY 2 \<mapsto> Unparseable]"
  have entry: "sessionStorage ?s (CACHE_KEY 2) = Some Unparseable"
    by (simp add: initial_world_def)
  have nonempty: "truthy Unparseable"
    by (simp add: truthy_def)
  have corrupt: "JSON_parse Unparseable = Inl (Error ''SyntaxError'' ''Unexpected token'')"
    by simp
  from corrupt_cache_is_a_miss [OF entry nonempty corrupt, of example_textContent "honest_env 2"]
    entry nonempty corrupt
  show ?thesis by blast
qed

text \<open>
  C10, as stated, fails for the empty string: \<^verbatim>\<open>JSON.parse\<close> rejects it, but line 76
  takes it for a missing entry, so the run fetches and the entry is not removed (here
  the fetch fails, and the entry is still there at the end).
\<close>

theorem empty_entry_is_not_removed:
  "(\<exists>e. JSON_parse Empty_string = Inl e)
   \<and> sessionStorage (fetchData example_textContent 2 (api_rejects 5)
                       (initial_world [CACHE_KEY 2 \<mapsto> Empty_string])) (CACHE_KEY 2)
       = Some Empty_string
   \<and> requests (fetchData example_textContent 2 (api_rejects 5)
                       (initial_world [CACHE_KEY 2 \<mapsto> Empty_string])) = [2]"
proof -
  have "\<exists>e. JSON_parse Empty_string = Inl e" by simp
  moreover have "sessionStorage (fetchData example_textContent 2 (api_rejects 5)
                       (initial_world [CACHE_KEY 2 \<mapsto> Empty_string])) (CACHE_KEY 2)
       = Some Empty_string" by code_simp
  moreover have "requests (fetchData example_textContent 2 (api_rejects 5)
                       (initial_world [CACHE_KEY 2 \<mapsto> Empty_string])) = [2]" by code_simp
  ultimately show ?thesis by blast
qed

end
